theory Spec2Isabelle
  imports Complex_Main
begin

section \<open>The location manager of remindme\<close>

text \<open>
  The development follows \<^verbatim>\<open>src/remindme.go\<close>: a registry of users, each with a contact
  set and an optional pointer to a point, on top of a spatial index.

  Coordinates are Go \<^verbatim>\<open>float64\<close> values that the handlers obtain from decoded JSON numbers,
  so they are finite; on finite values Go's \<^verbatim>\<open>==\<close> is equality of the denoted numbers,
  and they are modelled as \<^typ>\<open>real\<close>.

  The manager's mutex is not part of the model: the operations are modelled as they run
  one at a time.
\<close>

subsection \<open>Points and the store of points\<close>

text \<open>
  A point's payload is a Go \<^verbatim>\<open>interface{}\<close>. The program stores either \<^verbatim>\<open>nil\<close> or a
  user id (a string) there, and reads it back with the type assertion \<^verbatim>\<open>.(string)\<close>.
\<close>

datatype payload = NilData | StringData string

record Point =
  pt_x :: real
  pt_y :: real
  pt_data :: payload

text \<open>
  The program handles points through pointers (\<^verbatim>\<open>*quadtree.Point\<close>): a user keeps a
  pointer to its point and the index keeps pointers to the points inserted. The store
  maps an address to the point that lives there; an address is a position in the store,
  and \<^verbatim>\<open>NewPoint\<close> allocates at its end.
\<close>

type_synonym ref = nat
type_synonym heap = "Point list"

definition NewPoint :: "heap \<Rightarrow> real \<Rightarrow> real \<Rightarrow> payload \<Rightarrow> ref \<times> heap" where
  "NewPoint h x y d = (length h, h @ [\<lparr>pt_x = x, pt_y = y, pt_data = d\<rparr>])"

definition Coordinates :: "Point \<Rightarrow> real \<times> real" where
  "Coordinates p = (pt_x p, pt_y p)"

definition Data :: "Point \<Rightarrow> payload" where
  "Data p = pt_data p"

subsection \<open>The spatial index\<close>

text \<open>
  The index is the package \<^verbatim>\<open>github.com/asim/quadtree\<close>, of which the repository holds
  only the calls. Its operations are modelled from the specification (sections 3, 4.1,
  4.2 and 7). The partition of the stored points into quadrants is not represented: the
  specification fixes neither the capacity of a leaf nor a depth limit, and the manager
  observes only which points are stored, what \<^verbatim>\<open>Insert\<close> and \<^verbatim>\<open>Update\<close> report, and
  what \<^verbatim>\<open>KNearest\<close> returns. The stored points are kept in insertion order.
\<close>

datatype index_error = OutOfBoundsError | NotFoundError

record AABB =
  center :: ref
  half :: ref

record QuadTree =
  boundary :: AABB
  points :: "ref list"

definition NewAABB :: "ref \<Rightarrow> ref \<Rightarrow> AABB" where
  \<comment> \<open>Modelled from the spec: the library's constructor of a bounding box from a centre
      point and a half extent (section 3).\<close>
  "NewAABB c hp = \<lparr>center = c, half = hp\<rparr>"

definition New :: "AABB \<Rightarrow> int \<Rightarrow> QuadTree option \<Rightarrow> QuadTree" where
  \<comment> \<open>Modelled from the spec: the library's constructor of an index over a region; the
      program calls it with depth 0 and a nil parent, for a root. The index starts
      empty.\<close>
  "New bb depth parent = \<lparr>boundary = bb, points = []\<rparr>"

definition HalfPoint :: "heap \<Rightarrow> ref \<Rightarrow> real \<Rightarrow> ref \<times> heap" where
  \<comment> \<open>Modelled from the spec: the library's \<^verbatim>\<open>HalfPoint\<close>; the half extent of a square
      window of side \<open>2 * d\<close>, in raw coordinate units (sections 4.1, 4.3 and 9).\<close>
  "HalfPoint h p d = NewPoint h d d NilData"

definition ContainsPoint :: "heap \<Rightarrow> AABB \<Rightarrow> Point \<Rightarrow> bool" where
  \<comment> \<open>Modelled from the spec: \<^verbatim>\<open>contains(box, point)\<close> of section 4.1, for the box
      centre plus or minus half extent, borders included.\<close>
  "ContainsPoint h a p =
     (let c = h ! center a; e = h ! half a
      in pt_x c - pt_x e \<le> pt_x p \<and> pt_x p \<le> pt_x c + pt_x e \<and>
         pt_y c - pt_y e \<le> pt_y p \<and> pt_y p \<le> pt_y c + pt_y e)"

definition squaredDistance :: "Point \<Rightarrow> Point \<Rightarrow> real" where
  \<comment> \<open>Modelled from the spec: \<^verbatim>\<open>squaredDistance(p1, p2)\<close> of section 4.1.\<close>
  "squaredDistance p q = (pt_x p - pt_x q)\<^sup>2 + (pt_y p - pt_y q)\<^sup>2"

definition Insert :: "heap \<Rightarrow> QuadTree \<Rightarrow> ref \<Rightarrow> index_error option \<times> QuadTree" where
  \<comment> \<open>Modelled from the spec: \<^verbatim>\<open>Insert(point)\<close> of section 4.2. It fails with
      \<^verbatim>\<open>OutOfBoundsError\<close> outside the root region and leaves the index as it was
      (section 7); otherwise the point is stored.\<close>
  "Insert h qt p =
     (if ContainsPoint h (boundary qt) (h ! p)
      then (None, qt\<lparr>points := points qt @ [p]\<rparr>)
      else (Some OutOfBoundsError, qt))"

definition Update :: "heap \<Rightarrow> QuadTree \<Rightarrow> ref \<Rightarrow> ref \<Rightarrow> index_error option \<times> QuadTree" where
  \<comment> \<open>Modelled from the spec: \<^verbatim>\<open>Update(oldPoint, newPoint)\<close> of section 4.2. Equal
      coordinates return at once; a point that is not stored (by reference) is
      \<^verbatim>\<open>NotFoundError\<close>; otherwise the old point is removed by reference and the new
      point is inserted afresh.\<close>
  "Update h qt p np =
     (if Coordinates (h ! p) = Coordinates (h ! np) then (None, qt)
      else if p \<notin> set (points qt) then (Some NotFoundError, qt)
      else Insert h (qt\<lparr>points := remove1 p (points qt)\<rparr>) np)"

definition KNearest ::
  "heap \<Rightarrow> QuadTree \<Rightarrow> AABB \<Rightarrow> int \<Rightarrow> (Point \<Rightarrow> bool) \<Rightarrow> ref list" where
  \<comment> \<open>Modelled from the spec: \<^verbatim>\<open>KNearest(window, k, filter)\<close> of section 4.2. The
      stored points inside the window that satisfy the filter, in ascending order of
      squared distance from the window's centre (ties in insertion order), cut to
      \<open>k\<close>.\<close>
  "KNearest h qt a k fn =
     take (nat k)
       (sort_key (\<lambda>r. squaredDistance (h ! r) (h ! center a))
          (filter (\<lambda>r. ContainsPoint h a (h ! r) \<and> fn (h ! r)) (points qt)))"

subsection \<open>Users and the manager\<close>

text \<open>
  \<^verbatim>\<open>type user struct { id string; contacts map[string]bool; location *quadtree.Point }\<close>
  and
  \<^verbatim>\<open>type manager struct { sync.RWMutex; world *quadtree.QuadTree; users map[string]*user }\<close>.
  A nil \<^verbatim>\<open>location\<close> is \<open>None\<close>. The map \<^verbatim>\<open>contacts\<close> only ever receives the
  value \<^verbatim>\<open>true\<close>, and the program reads only its length and whether a key is present: it
  is the set of its keys. Each \<^verbatim>\<open>*user\<close> is stored under one key of
  \<^verbatim>\<open>users\<close> only, so the map holds the user records themselves; the store of points
  is carried by the manager's state.
\<close>

record user =
  user_id :: string
  contacts :: "string set"
  location :: "ref option"

record manager =
  world :: QuadTree
  users :: "string \<rightharpoonup> user"
  heap :: heap

definition nearestContacts :: int where
  "nearestContacts = 5"

definition nearestDistance :: real where
  "nearestDistance = 10.0"

definition newUser :: "string \<Rightarrow> user" where
  "newUser i = \<lparr>user_id = i, contacts = {}, location = None\<rparr>"

definition newWorld :: "heap \<Rightarrow> QuadTree \<times> heap" where
  "newWorld h =
     (let (ax, h1) = NewPoint h 0.0 0.0 NilData;
          (bx, h2) = NewPoint h1 85.0 185.0 NilData;
          bb = NewAABB ax bx
      in (New bb 0 None, h2))"

definition newManager :: manager where
  "newManager =
     (let (w, h) = newWorld []
      in \<lparr>world = w, users = Map.empty, heap = h\<rparr>)"

text \<open>The loop of \<^verbatim>\<open>addContacts\<close> over the contacts received.\<close>

fun addContacts_loop :: "string set \<Rightarrow> string list \<Rightarrow> string set" where
  "addContacts_loop c [] = c"
| "addContacts_loop c (contact # rest) =
     (if contact \<in> c then addContacts_loop c rest
      else addContacts_loop (insert contact c) rest)"

definition addContacts :: "manager \<Rightarrow> string \<Rightarrow> string list \<Rightarrow> manager" where
  "addContacts m i cs =
     (let (u, m1) = (case users m i of
                       None \<Rightarrow> (newUser i, m\<lparr>users := (users m)(i \<mapsto> newUser i)\<rparr>)
                     | Some u \<Rightarrow> (u, m))
      in m1\<lparr>users := (users m1)(i \<mapsto> u\<lparr>contacts := addContacts_loop (contacts u) cs\<rparr>)\<rparr>)"

text \<open>The filter closure of \<^verbatim>\<open>nearContacts\<close>, over the captured contacts \<open>c\<close>.\<close>

definition contact_filter :: "string set \<Rightarrow> Point \<Rightarrow> bool" where
  "contact_filter c p =
     (case Data p of
        NilData \<Rightarrow> False
      | StringData i \<Rightarrow> (if i \<notin> c then False else True))"

text \<open>The loop of \<^verbatim>\<open>nearContacts\<close> over the points found, appending to \<open>acc\<close>.\<close>

fun nearContacts_loop :: "user \<Rightarrow> string list \<Rightarrow> Point list \<Rightarrow> string list" where
  "nearContacts_loop u acc [] = acc"
| "nearContacts_loop u acc (point # rest) =
     (case Data point of
        NilData \<Rightarrow> nearContacts_loop u acc rest
      | StringData i \<Rightarrow>
          (if i = user_id u then nearContacts_loop u acc rest
           else nearContacts_loop u (acc @ [i]) rest))"

text \<open>
  \<^verbatim>\<open>nearContacts\<close>, with the index's search as a parameter \<open>search\<close>; the program's
  function is the instance at \<^const>\<open>KNearest\<close>. The result is the returned slice
  together with the state after the call (the window's two points are allocated).
\<close>

definition nearContacts_on ::
  "(heap \<Rightarrow> QuadTree \<Rightarrow> AABB \<Rightarrow> int \<Rightarrow> (Point \<Rightarrow> bool) \<Rightarrow> ref list)
     \<Rightarrow> manager \<Rightarrow> string \<Rightarrow> real \<Rightarrow> real \<Rightarrow> string list \<times> manager" where
  "nearContacts_on search m i lat lon =
     (case users m i of
        None \<Rightarrow> ([], m)
      | Some u \<Rightarrow>
          if contacts u = {} then ([], m)
          else
            (let c = contacts u;
                 (ax, h1) = NewPoint (heap m) lat lon NilData;
                 (bx, h2) = HalfPoint h1 ax nearestDistance;
                 bb = NewAABB ax bx;
                 found = search h2 (world m) bb nearestContacts (contact_filter c)
             in (nearContacts_loop u [] (map (\<lambda>r. h2 ! r) found), m\<lparr>heap := h2\<rparr>)))"

definition nearContacts :: "manager \<Rightarrow> string \<Rightarrow> real \<Rightarrow> real \<Rightarrow> string list \<times> manager" where
  "nearContacts = nearContacts_on KNearest"

text \<open>
  \<^verbatim>\<open>updateLocation\<close> returns nothing: the model returns the state after the call. What
  \<^verbatim>\<open>Insert\<close> and \<^verbatim>\<open>Update\<close> report is dropped, as in the source.
\<close>

definition updateLocation :: "manager \<Rightarrow> string \<Rightarrow> real \<Rightarrow> real \<Rightarrow> manager" where
  "updateLocation m i lat lon =
     (let (u, m1) = (case users m i of
                       None \<Rightarrow> (newUser i, m\<lparr>users := (users m)(i \<mapsto> newUser i)\<rparr>)
                     | Some u \<Rightarrow> (u, m))
      in case location u of
           None \<Rightarrow>
             (let (p, h1) = NewPoint (heap m1) lat lon (StringData i);
                  u1 = u\<lparr>location := Some p\<rparr>;
                  (_, w1) = Insert h1 (world m1) p
              in m1\<lparr>world := w1, users := (users m1)(i \<mapsto> u1), heap := h1\<rparr>)
         | Some old \<Rightarrow>
             (let (x, y) = Coordinates (heap m1 ! old)
              in if x = lat \<and> y = lon then m1
                 else
                   (let (np, h1) = NewPoint (heap m1) lat lon NilData;
                        (_, w1) = Update h1 (world m1) old np
                    in m1\<lparr>world := w1, heap := h1\<rparr>)))"

subsection \<open>The ping handler\<close>

text \<open>
  \<^verbatim>\<open>pingHandler\<close> reads the request's method and body. The body is modelled by the
  outcome of \<^verbatim>\<open>ioutil.ReadAll\<close> followed by \<^verbatim>\<open>json.Unmarshal\<close> into a
  \<^verbatim>\<open>map[string]interface{}\<close>; a decoded JSON object is a list of distinct keys with
  their values. The response is the status and the message written; a handler that
  writes nothing answers 200 with an empty message.
\<close>

datatype json =
    JNull
  | JBool bool
  | JNumber real
  | JString string
  | JArray "json list"
  | JObject "(string \<times> json) list"

datatype body = ReadFailed | UnmarshalFailed | Decoded "(string \<times> json) list"

record request =
  Method :: string
  Body :: body

record response =
  status :: nat
  message :: string

definition StatusOK :: nat where
  "StatusOK = 200"

definition StatusBadRequest :: nat where
  "StatusBadRequest = 400"

definition http_Error :: "string \<Rightarrow> nat \<Rightarrow> response" where
  "http_Error msg code = \<lparr>status = code, message = msg\<rparr>"

definition no_write :: response where
  "no_write = \<lparr>status = StatusOK, message = []\<rparr>"

text \<open>The type assertions \<^verbatim>\<open>v.(string)\<close>, \<^verbatim>\<open>v.(map[string]interface{})\<close> and
  \<^verbatim>\<open>v.(float64)\<close> on the value found under a key, if any.\<close>

fun assert_string :: "json option \<Rightarrow> string option" where
  "assert_string (Some (JString s)) = Some s"
| "assert_string _ = None"

fun assert_object :: "json option \<Rightarrow> (string \<times> json) list option" where
  "assert_object (Some (JObject kvs)) = Some kvs"
| "assert_object _ = None"

fun assert_float64 :: "json option \<Rightarrow> real option" where
  "assert_float64 (Some (JNumber v)) = Some v"
| "assert_float64 _ = None"

definition pingHandler :: "manager \<Rightarrow> request \<Rightarrow> response \<times> manager" where
  "pingHandler m r =
     (if Method r \<noteq> ''POST''
      then (http_Error ''Bad Request. Non POST'' StatusBadRequest, m)
      else case Body r of
        ReadFailed \<Rightarrow>
          (http_Error ''Bad Request. Could not read body.'' StatusBadRequest, m)
      | UnmarshalFailed \<Rightarrow>
          (http_Error ''Bad Request. Failed to unmarshal request.'' StatusBadRequest, m)
      | Decoded data \<Rightarrow>
          (case assert_string (map_of data ''id'') of
             None \<Rightarrow> (http_Error ''Bad Request. Could not find id.'' StatusBadRequest, m)
           | Some i \<Rightarrow>
          (case assert_object (map_of data ''location'') of
             None \<Rightarrow>
               (http_Error ''Bad Request. Could not find location.'' StatusBadRequest, m)
           | Some loc \<Rightarrow>
          (case assert_float64 (map_of loc ''lat'') of
             None \<Rightarrow>
               (http_Error ''Bad Request. Could not parse latitude.'' StatusBadRequest, m)
           | Some lat \<Rightarrow>
          (case assert_float64 (map_of loc ''lon'') of
             None \<Rightarrow>
               (http_Error ''Bad Request. Could not parse longitude.'' StatusBadRequest, m)
           | Some lon \<Rightarrow> (no_write, updateLocation m i lat lon))))))"

subsection \<open>Consistent manager states\<close>

text \<open>
  What Go's allocation and the manager's own bookkeeping guarantee in every state that
  the manager's operations reach: pointers point into the store, the index holds a point once, a user
  is filed under its own id, and a stored point that carries an id is the point its
  user's \<^verbatim>\<open>location\<close> refers to.
\<close>

definition consistent :: "manager \<Rightarrow> bool" where
  "consistent m \<longleftrightarrow>
     center (boundary (world m)) < length (heap m) \<and>
     half (boundary (world m)) < length (heap m) \<and>
     distinct (points (world m)) \<and>
     (\<forall>r \<in> set (points (world m)). r < length (heap m)) \<and>
     (\<forall>i u. users m i = Some u \<longrightarrow> user_id u = i) \<and>
     (\<forall>i u r. users m i = Some u \<longrightarrow> location u = Some r \<longrightarrow> r < length (heap m)) \<and>
     (\<forall>r \<in> set (points (world m)). \<forall>i. Data (heap m ! r) = StringData i \<longrightarrow>
        (\<exists>u. users m i = Some u \<and> location u = Some r))"

text \<open>The states that the manager's operations reach from the initial one.\<close>

inductive reachable :: "manager \<Rightarrow> bool" where
  init: "reachable newManager"
| contacts: "reachable m \<Longrightarrow> reachable (addContacts m i cs)"
| ping: "reachable m \<Longrightarrow> reachable (updateLocation m i lat lon)"
| near: "reachable m \<Longrightarrow> reachable (snd (nearContacts m i lat lon))"

text \<open>The contact set of a user id, empty for an unknown user.\<close>

definition contacts_of :: "manager \<Rightarrow> string \<Rightarrow> string set" where
  "contacts_of m i = (case users m i of None \<Rightarrow> {} | Some u \<Rightarrow> contacts u)"

text \<open>The stored points that carry a given user id.\<close>

definition points_of :: "manager \<Rightarrow> string \<Rightarrow> ref list" where
  "points_of m i = filter (\<lambda>r. Data (heap m ! r) = StringData i) (points (world m))"

text \<open>Whether the coordinates lie in the region of the manager's index.\<close>

definition in_world :: "manager \<Rightarrow> real \<Rightarrow> real \<Rightarrow> bool" where
  "in_world m lat lon =
     ContainsPoint (heap m) (boundary (world m)) \<lparr>pt_x = lat, pt_y = lon, pt_data = NilData\<rparr>"

text \<open>A ping request as a client sends it.\<close>

definition ping_request :: "string \<Rightarrow> real \<Rightarrow> real \<Rightarrow> request" where
  "ping_request i lat lon =
     \<lparr>Method = ''POST'',
      Body = Decoded [(''id'', JString i),
                      (''location'', JObject [(''lat'', JNumber lat), (''lon'', JNumber lon)])]\<rparr>"

text \<open>
  Two states used as examples. In \<open>crowd\<close>, user \<open>a\<close> has six contacts and eight users
  report the same position; in \<open>selfish\<close>, user \<open>a\<close> is its own contact.
\<close>

definition crowd :: manager where
  "crowd =
     foldl (\<lambda>s i. updateLocation s i 1 1)
       (addContacts newManager ''a'' [''b'', ''c'', ''d'', ''e'', ''f'', ''g''])
       [''a'', ''b'', ''c'', ''d'', ''e'', ''f'', ''g'', ''h'']"

definition selfish :: manager where
  "selfish = updateLocation (addContacts newManager ''a'' [''a'']) ''a'' 1 1"

section \<open>Properties\<close>

subsection \<open>The loops and the index\<close>

lemma addContacts_loop_eq: "addContacts_loop c cs = c \<union> set cs"
  by (induction cs arbitrary: c) auto

lemma nearContacts_loop_set:
  "set (nearContacts_loop u acc ps) =
     set acc \<union> {i. \<exists>p \<in> set ps. Data p = StringData i \<and> i \<noteq> user_id u}"
  by (induction ps arbitrary: acc) (auto split: payload.splits)

lemma nearContacts_loop_length:
  "length (nearContacts_loop u acc ps) \<le> length acc + length ps"
proof (induction ps arbitrary: acc)
  case Nil
  show ?case by simp
next
  case (Cons p ps)
  have "length (nearContacts_loop u (acc @ [i]) ps) \<le> Suc (length acc + length ps)" for i
    using Cons.IH [of "acc @ [i]"] by simp
  moreover have "length (nearContacts_loop u acc ps) \<le> Suc (length acc + length ps)"
    using Cons.IH [of acc] by simp
  ultimately show ?case by (simp split: payload.splits)
qed

lemma KNearest_length: "int (length (KNearest h qt a k fn)) \<le> max 0 k"
  by (simp add: KNearest_def)

lemma KNearest_set:
  "set (KNearest h qt a k fn) \<subseteq> {r \<in> set (points qt). ContainsPoint h a (h ! r) \<and> fn (h ! r)}"
proof -
  have "set (KNearest h qt a k fn) \<subseteq>
        set (sort_key (\<lambda>r. squaredDistance (h ! r) (h ! center a))
          (filter (\<lambda>r. ContainsPoint h a (h ! r) \<and> fn (h ! r)) (points qt)))"
    unfolding KNearest_def by (rule set_take_subset)
  then show ?thesis by auto
qed

subsection \<open>The cases of \<^verbatim>\<open>updateLocation\<close>\<close>

lemma updateLocation_unknown:
  assumes "users m i = None"
  shows "updateLocation m i lat lon =
           m\<lparr>world := snd (Insert (heap m @ [\<lparr>pt_x = lat, pt_y = lon, pt_data = StringData i\<rparr>])
                             (world m) (length (heap m))),
             users := (users m)(i \<mapsto> (newUser i)\<lparr>location := Some (length (heap m))\<rparr>),
             heap := heap m @ [\<lparr>pt_x = lat, pt_y = lon, pt_data = StringData i\<rparr>]\<rparr>"
  using assms
  by (simp add: updateLocation_def NewPoint_def newUser_def split: prod.splits)

lemma updateLocation_first:
  assumes "users m i = Some u" and "location u = None"
  shows "updateLocation m i lat lon =
           m\<lparr>world := snd (Insert (heap m @ [\<lparr>pt_x = lat, pt_y = lon, pt_data = StringData i\<rparr>])
                             (world m) (length (heap m))),
             users := (users m)(i \<mapsto> u\<lparr>location := Some (length (heap m))\<rparr>),
             heap := heap m @ [\<lparr>pt_x = lat, pt_y = lon, pt_data = StringData i\<rparr>]\<rparr>"
  using assms
  by (simp add: updateLocation_def NewPoint_def split: prod.splits)

lemma updateLocation_same:
  assumes "users m i = Some u" and "location u = Some r"
    and "Coordinates (heap m ! r) = (lat, lon)"
  shows "updateLocation m i lat lon = m"
  using assms by (simp add: updateLocation_def)

lemma updateLocation_move:
  assumes "users m i = Some u" and "location u = Some r"
    and "Coordinates (heap m ! r) \<noteq> (lat, lon)"
  shows "updateLocation m i lat lon =
           m\<lparr>world := snd (Update (heap m @ [\<lparr>pt_x = lat, pt_y = lon, pt_data = NilData\<rparr>])
                             (world m) r (length (heap m))),
             heap := heap m @ [\<lparr>pt_x = lat, pt_y = lon, pt_data = NilData\<rparr>]\<rparr>"
  using assms
  by (auto simp add: updateLocation_def NewPoint_def split: prod.splits)

subsection \<open>What the index operations leave\<close>

lemma ContainsPoint_append:
  "center a < length h \<Longrightarrow> half a < length h \<Longrightarrow>
     ContainsPoint (h @ h') a p = ContainsPoint h a p"
  by (simp add: ContainsPoint_def nth_append)

lemma Insert_points:
  "points (snd (Insert h qt p)) =
     (if ContainsPoint h (boundary qt) (h ! p) then points qt @ [p] else points qt)"
  by (simp add: Insert_def)

lemma Insert_boundary: "boundary (snd (Insert h qt p)) = boundary qt"
  by (simp add: Insert_def)

lemma Update_boundary: "boundary (snd (Update h qt p np)) = boundary qt"
  by (simp add: Update_def Insert_def)

lemma Update_points:
  "points (snd (Update h qt p np)) =
     (if Coordinates (h ! p) = Coordinates (h ! np) \<or> p \<notin> set (points qt) then points qt
      else if ContainsPoint h (boundary qt) (h ! np) then remove1 p (points qt) @ [np]
      else remove1 p (points qt))"
  by (simp add: Update_def Insert_def)

subsection \<open>Consistency is kept\<close>

lemma consistent_addContacts:
  assumes "consistent m"
  shows "consistent (addContacts m i cs)"
  using assms
  by (auto simp add: consistent_def addContacts_def newUser_def split: option.splits)

lemma consistent_nearContacts_on:
  assumes "consistent m"
  shows "consistent (snd (nearContacts_on search m i lat lon))"
  using assms
  by (auto simp add: consistent_def nearContacts_on_def NewPoint_def HalfPoint_def nth_append
      less_Suc_eq split: option.splits)

lemma consistent_updateLocation_unknown:
  assumes "consistent m" and "users m i = None"
  shows "consistent (updateLocation m i lat lon)"
  using assms
  unfolding updateLocation_unknown [OF assms(2)]
  by (auto simp add: consistent_def Insert_def newUser_def nth_append Data_def
      split: if_splits) (metis less_SucI)+

lemma consistent_updateLocation_first:
  assumes "consistent m" and "users m i = Some u" and "location u = None"
  shows "consistent (updateLocation m i lat lon)"
  using assms
  unfolding updateLocation_first [OF assms(2,3)]
  by (auto simp add: consistent_def Insert_def nth_append Data_def split: if_splits)
    (metis less_SucI)+

lemma consistent_updateLocation_move:
  assumes "consistent m" and "users m i = Some u" and "location u = Some r"
    and "Coordinates (heap m ! r) \<noteq> (lat, lon)"
  shows "consistent (updateLocation m i lat lon)"
  using assms
  unfolding updateLocation_move [OF assms(2,3,4)]
  by (auto simp add: consistent_def Update_points Update_boundary nth_append Data_def
      split: if_splits) (metis less_SucI)+

lemma consistent_updateLocation:
  assumes "consistent m"
  shows "consistent (updateLocation m i lat lon)"
proof (cases "users m i")
  case None
  then show ?thesis using assms by (rule consistent_updateLocation_unknown [rotated])
next
  case (Some u)
  show ?thesis
  proof (cases "location u")
    case None
    with Some assms show ?thesis by (simp add: consistent_updateLocation_first)
  next
    case (Some r)
    show ?thesis
    proof (cases "Coordinates (heap m ! r) = (lat, lon)")
      case True
      with \<open>users m i = Some u\<close> Some assms show ?thesis
        by (simp add: updateLocation_same)
    next
      case False
      with \<open>users m i = Some u\<close> Some assms show ?thesis
        by (simp add: consistent_updateLocation_move)
    qed
  qed
qed

lemma consistent_newManager: "consistent newManager"
  by (simp add: consistent_def newManager_def newWorld_def NewPoint_def NewAABB_def New_def)

lemma reachable_consistent: "reachable m \<Longrightarrow> consistent m"
  by (induction rule: reachable.induct)
    (simp_all add: consistent_newManager consistent_addContacts consistent_updateLocation
      consistent_nearContacts_on nearContacts_def)

subsection \<open>Stored points by user id\<close>

text \<open>The definitions that evaluate the model on an example.\<close>

lemmas model_defs =
  newManager_def newWorld_def NewPoint_def NewAABB_def New_def newUser_def
  addContacts_def updateLocation_def nearContacts_def nearContacts_on_def
  Insert_def Update_def KNearest_def ContainsPoint_def HalfPoint_def squaredDistance_def
  Coordinates_def Data_def contact_filter_def nearestContacts_def nearestDistance_def
  points_of_def contacts_of_def in_world_def




lemma relocation_points_of:
  assumes c: "consistent m" and u: "users m i = Some u" and l: "location u = Some old"
    and ne: "Coordinates (heap m ! old) \<noteq> (lat, lon)"
  shows "points_of (updateLocation m i lat lon) i = []"
proof -
  let ?p = "\<lparr>pt_x = lat, pt_y = lon, pt_data = NilData\<rparr>"
  let ?h = "heap m @ [?p]"
  let ?w = "snd (Update ?h (world m) old (length (heap m)))"
  have old: "old < length (heap m)"
    using c u l by (auto simp add: consistent_def)
  have d: "distinct (points (world m))"
    using c by (simp add: consistent_def)
  have sub: "set (points ?w) \<subseteq> (set (points (world m)) - {old}) \<union> {length (heap m)}"
    using old ne d by (auto simp add: Update_points nth_append Coordinates_def)
  have "Data (?h ! q) \<noteq> StringData i" if "q \<in> set (points ?w)" for q
  proof (cases "q = length (heap m)")
    case True
    then show ?thesis by (simp add: Data_def)
  next
    case False
    with that sub have q: "q \<in> set (points (world m))" and qo: "q \<noteq> old" by auto
    then have "q < length (heap m)"
      using c by (simp add: consistent_def)
    moreover have "Data (heap m ! q) \<noteq> StringData i"
      using c q qo u l by (auto simp add: consistent_def)
    ultimately show ?thesis by (simp add: nth_append)
  qed
  then show ?thesis
    by (simp add: updateLocation_move [OF u l ne] points_of_def filter_empty_conv)
qed

subsection \<open>Relocation\<close>

text \<open>
  C1. For a user whose stored coordinates differ from \<open>(lat, lon)\<close>, \<^verbatim>\<open>updateLocation\<close>
  allocates a new point with these coordinates and no payload and calls the index's
  \<^verbatim>\<open>Update\<close> with the user's point and the new one; the registry is left as it was.
  In a consistent state, when \<^verbatim>\<open>Update\<close> reports no error, the index holds the new
  point, whose payload is nil, in place of the old one, and no stored point carries the
  user's id any more.
\<close>

theorem updateLocation_relocation_nil_payload:
  assumes "users m i = Some u" and "location u = Some old"
    and "Coordinates (heap m ! old) \<noteq> (lat, lon)"
  shows "heap (updateLocation m i lat lon) =
           heap m @ [\<lparr>pt_x = lat, pt_y = lon, pt_data = NilData\<rparr>] \<and>
         Data (heap (updateLocation m i lat lon) ! length (heap m)) = NilData \<and>
         world (updateLocation m i lat lon) =
           snd (Update (heap (updateLocation m i lat lon)) (world m) old (length (heap m))) \<and>
         users (updateLocation m i lat lon) = users m \<and>
         (consistent m \<longrightarrow>
          fst (Update (heap (updateLocation m i lat lon)) (world m) old (length (heap m))) = None \<longrightarrow>
            points (world (updateLocation m i lat lon)) =
              remove1 old (points (world m)) @ [length (heap m)] \<and>
            points_of (updateLocation m i lat lon) i = [])"
proof -
  have mv: "updateLocation m i lat lon =
           m\<lparr>world := snd (Update (heap m @ [\<lparr>pt_x = lat, pt_y = lon, pt_data = NilData\<rparr>])
                             (world m) old (length (heap m))),
             heap := heap m @ [\<lparr>pt_x = lat, pt_y = lon, pt_data = NilData\<rparr>]\<rparr>"
    using assms by (rule updateLocation_move)
  have po: "consistent m \<longrightarrow> points_of (updateLocation m i lat lon) i = []"
    using assms by (simp add: relocation_points_of)
  have ok: "points (world (updateLocation m i lat lon)) =
              remove1 old (points (world m)) @ [length (heap m)]"
    if c: "consistent m"
      and r: "fst (Update (heap (updateLocation m i lat lon)) (world m) old (length (heap m))) = None"
  proof -
    have "old < length (heap m)"
      using c assms by (auto simp add: consistent_def)
    then show ?thesis
      using r assms(3) unfolding mv
      by (auto simp add: Update_def Insert_def nth_append Coordinates_def split: if_splits)
  qed
  show ?thesis
    using po ok by (simp add: mv Data_def)
qed

theorem updateLocation_relocation_nil_payload_witness:
  "users (updateLocation newManager ''u'' 1 1) ''u''
     = Some \<lparr>user_id = ''u'', contacts = {}, location = Some 2\<rparr> \<and>
   Coordinates (heap (updateLocation newManager ''u'' 1 1) ! 2) \<noteq> (2, 2) \<and>
   consistent (updateLocation newManager ''u'' 1 1) \<and>
   points_of (updateLocation newManager ''u'' 1 1) ''u'' = [2] \<and>
   points_of (updateLocation (updateLocation newManager ''u'' 1 1) ''u'' 2 2) ''u'' = [] \<and>
   points (world (updateLocation (updateLocation newManager ''u'' 1 1) ''u'' 2 2)) = [3] \<and>
   Data (heap (updateLocation (updateLocation newManager ''u'' 1 1) ''u'' 2 2) ! 3) = NilData"
proof -
  let ?m = "updateLocation newManager ''u'' 1 1"
  let ?u = "\<lparr>user_id = ''u'', contacts = {}, location = Some 2\<rparr>"
  have h1: "users ?m ''u'' = Some ?u"
    by (simp add: model_defs)
  have h2: "location ?u = Some 2"
    by simp
  have h3: "Coordinates (heap ?m ! 2) \<noteq> (2, 2)"
    by (simp add: model_defs)
  have c: "consistent ?m"
    by (intro consistent_updateLocation consistent_newManager)
  have ok: "fst (Update (heap (updateLocation ?m ''u'' 2 2)) (world ?m) 2 (length (heap ?m))) = None"
    by (simp add: model_defs)
  have before: "points_of ?m ''u'' = [2]" and pts: "points (world ?m) = [2]"
    and len: "length (heap ?m) = 3"
    by (simp_all add: model_defs)
  note T = updateLocation_relocation_nil_payload [OF h1 h2 h3]
  have a: "points_of (updateLocation ?m ''u'' 2 2) ''u'' = []"
    using T c ok by blast
  have "points (world (updateLocation ?m ''u'' 2 2)) =
          remove1 2 (points (world ?m)) @ [length (heap ?m)]"
    using T c ok by blast
  then have b: "points (world (updateLocation ?m ''u'' 2 2)) = [3]"
    by (simp add: pts len)
  have "Data (heap (updateLocation ?m ''u'' 2 2) ! length (heap ?m)) = NilData"
    using T by blast
  then have d: "Data (heap (updateLocation ?m ''u'' 2 2) ! 3) = NilData"
    by (simp add: len)
  show ?thesis
    using h1 h3 c before a b d by blast
qed

subsection \<open>The ping handler never reports an index error\<close>

lemma pingHandler_ping_request:
  "pingHandler m (ping_request i lat lon) = (no_write, updateLocation m i lat lon)"
  by (simp add: pingHandler_def ping_request_def)

lemma pingHandler_well_formed:
  assumes "Method r = ''POST''" and "Body r = Decoded data"
    and "map_of data ''id'' = Some (JString i)"
    and "map_of data ''location'' = Some (JObject loc)"
    and "map_of loc ''lat'' = Some (JNumber lat)"
    and "map_of loc ''lon'' = Some (JNumber lon)"
  shows "pingHandler m r = (no_write, updateLocation m i lat lon)"
  using assms by (simp add: pingHandler_def)

lemma pingHandler_rejects:
  assumes "status (fst (pingHandler m r)) \<noteq> StatusOK"
  shows "status (fst (pingHandler m r)) = StatusBadRequest \<and> snd (pingHandler m r) = m"
  using assms
  by (auto simp add: pingHandler_def http_Error_def no_write_def
      split: if_splits body.splits option.splits)

text \<open>
  A user at \<open>(1, 1)\<close> pings from \<open>(100, 200)\<close>, outside the world: the call of
  \<^verbatim>\<open>Update\<close> that \<^verbatim>\<open>updateLocation\<close> makes reports \<^verbatim>\<open>OutOfBoundsError\<close>, and the
  handler still answers 200 with nothing written.
\<close>

theorem updateLocation_error_not_surfaced_counterexample:
  "users (updateLocation newManager ''u'' 1 1) ''u''
     = Some \<lparr>user_id = ''u'', contacts = {}, location = Some 2\<rparr> \<and>
   fst (Update (heap (updateLocation newManager ''u'' 1 1)
                  @ [\<lparr>pt_x = 100, pt_y = 200, pt_data = NilData\<rparr>])
          (world (updateLocation newManager ''u'' 1 1)) 2 3) = Some OutOfBoundsError \<and>
   world (updateLocation (updateLocation newManager ''u'' 1 1) ''u'' 100 200) =
     snd (Update (heap (updateLocation newManager ''u'' 1 1)
                  @ [\<lparr>pt_x = 100, pt_y = 200, pt_data = NilData\<rparr>])
          (world (updateLocation newManager ''u'' 1 1)) 2 3) \<and>
   pingHandler (updateLocation newManager ''u'' 1 1) (ping_request ''u'' 100 200) =
     (\<lparr>status = 200, message = []\<rparr>,
      updateLocation (updateLocation newManager ''u'' 1 1) ''u'' 100 200)"
  by (simp add: model_defs pingHandler_ping_request no_write_def StatusOK_def)

text \<open>
  C2, as the code has it. \<^verbatim>\<open>updateLocation\<close> has no result and drops what the index
  reports, so it never fails. \<^verbatim>\<open>pingHandler\<close> answers 200, with nothing written, to
  every POST whose body decodes to an object with a string \<^verbatim>\<open>id\<close> and a \<^verbatim>\<open>location\<close>
  object with numeric \<^verbatim>\<open>lat\<close> and \<^verbatim>\<open>lon\<close>, after calling \<^verbatim>\<open>updateLocation\<close>,
  whatever state the manager is in. Any other answer is a 400 of the request's
  validation, given before the manager is called.
\<close>

theorem pingHandler_never_reports:
  "(Method r = ''POST'' \<and> Body r = Decoded data \<and>
    map_of data ''id'' = Some (JString i) \<and>
    map_of data ''location'' = Some (JObject loc) \<and>
    map_of loc ''lat'' = Some (JNumber lat) \<and>
    map_of loc ''lon'' = Some (JNumber lon) \<longrightarrow>
      pingHandler m r = (\<lparr>status = StatusOK, message = []\<rparr>, updateLocation m i lat lon)) \<and>
   (status (fst (pingHandler m r)) \<noteq> StatusOK \<longrightarrow>
      status (fst (pingHandler m r)) = StatusBadRequest \<and> snd (pingHandler m r) = m)"
  using pingHandler_well_formed [of r data i loc lat lon m] pingHandler_rejects [of m r]
  by (simp add: no_write_def)

theorem pingHandler_never_reports_witness:
  "pingHandler (updateLocation newManager ''u'' 1 1) (ping_request ''u'' 100 200) =
     (\<lparr>status = StatusOK, message = []\<rparr>,
      updateLocation (updateLocation newManager ''u'' 1 1) ''u'' 100 200) \<and>
   fst (Insert (heap newManager @ [\<lparr>pt_x = 100, pt_y = 200, pt_data = StringData ''v''\<rparr>])
          (world newManager) 2) = Some OutOfBoundsError \<and>
   pingHandler newManager (ping_request ''v'' 100 200) =
     (\<lparr>status = StatusOK, message = []\<rparr>, updateLocation newManager ''v'' 100 200) \<and>
   status (fst (pingHandler newManager \<lparr>Method = ''GET'', Body = Decoded []\<rparr>)) = StatusBadRequest \<and>
   snd (pingHandler newManager \<lparr>Method = ''GET'', Body = Decoded []\<rparr>) = newManager"
proof -
  let ?d = "[(''id'', JString ''u''),
             (''location'', JObject [(''lat'', JNumber 100), (''lon'', JNumber 200)])]"
  let ?l = "[(''lat'', JNumber 100), (''lon'', JNumber 200)]"
  have wf: "Method (ping_request i 100 200) = ''POST'' \<and>
            Body (ping_request i 100 200) =
              Decoded [(''id'', JString i), (''location'', JObject ?l)] \<and>
            map_of [(''id'', JString i), (''location'', JObject ?l)] ''id'' = Some (JString i) \<and>
            map_of [(''id'', JString i), (''location'', JObject ?l)] ''location''
              = Some (JObject ?l) \<and>
            map_of ?l ''lat'' = Some (JNumber 100) \<and>
            map_of ?l ''lon'' = Some (JNumber 200)" for i
    by (simp add: ping_request_def)
  have a: "pingHandler (updateLocation newManager ''u'' 1 1) (ping_request ''u'' 100 200) =
     (\<lparr>status = StatusOK, message = []\<rparr>,
      updateLocation (updateLocation newManager ''u'' 1 1) ''u'' 100 200)"
    using pingHandler_never_reports
      [of "ping_request ''u'' 100 200" "[(''id'', JString ''u''), (''location'', JObject ?l)]"
          "''u''" ?l 100 200 "updateLocation newManager ''u'' 1 1"] wf [of "''u''"]
    by blast
  have b: "pingHandler newManager (ping_request ''v'' 100 200) =
     (\<lparr>status = StatusOK, message = []\<rparr>, updateLocation newManager ''v'' 100 200)"
    using pingHandler_never_reports
      [of "ping_request ''v'' 100 200" "[(''id'', JString ''v''), (''location'', JObject ?l)]"
          "''v''" ?l 100 200 newManager] wf [of "''v''"]
    by blast
  have g: "status (fst (pingHandler newManager \<lparr>Method = ''GET'', Body = Decoded []\<rparr>)) \<noteq> StatusOK"
    by (simp add: pingHandler_def http_Error_def StatusOK_def StatusBadRequest_def)
  have c: "status (fst (pingHandler newManager \<lparr>Method = ''GET'', Body = Decoded []\<rparr>))
             = StatusBadRequest \<and>
           snd (pingHandler newManager \<lparr>Method = ''GET'', Body = Decoded []\<rparr>) = newManager"
    using pingHandler_never_reports
      [of "\<lparr>Method = ''GET'', Body = Decoded []\<rparr>" "[]" "[]" "[]" 0 0 newManager] g
    by blast
  have o: "fst (Insert (heap newManager @ [\<lparr>pt_x = 100, pt_y = 200, pt_data = StringData ''v''\<rparr>])
          (world newManager) 2) = Some OutOfBoundsError"
    by (simp add: model_defs)
  show ?thesis using a b c o by blast
qed

subsection \<open>Near contacts\<close>

lemma nearContacts_on_result:
  assumes "users m i = Some u" and "contacts u \<noteq> {}"
  shows "fst (nearContacts_on search m i lat lon) =
           nearContacts_loop u []
             (map (\<lambda>r. (heap m @ [\<lparr>pt_x = lat, pt_y = lon, pt_data = NilData\<rparr>,
                                 \<lparr>pt_x = nearestDistance, pt_y = nearestDistance,
                                  pt_data = NilData\<rparr>]) ! r)
                (search (heap m @ [\<lparr>pt_x = lat, pt_y = lon, pt_data = NilData\<rparr>,
                                   \<lparr>pt_x = nearestDistance, pt_y = nearestDistance,
                                    pt_data = NilData\<rparr>])
                   (world m)
                   \<lparr>center = length (heap m), half = Suc (length (heap m))\<rparr>
                   nearestContacts (contact_filter (contacts u))))"
  using assms
  by (simp add: nearContacts_on_def NewPoint_def HalfPoint_def NewAABB_def)

lemma nearContacts_on_unknown:
  "users m i = None \<Longrightarrow> nearContacts_on search m i lat lon = ([], m)"
  by (simp add: nearContacts_on_def)

lemma nearContacts_on_no_contacts:
  "users m i = Some u \<Longrightarrow> contacts u = {} \<Longrightarrow> nearContacts_on search m i lat lon = ([], m)"
  by (simp add: nearContacts_on_def)

lemma contact_filter_iff:
  "contact_filter c p \<longleftrightarrow> (\<exists>s. Data p = StringData s \<and> s \<in> c)"
  by (simp add: contact_filter_def split: payload.splits)

text \<open>
  C3. For a user that is unknown or has no contacts, \<^verbatim>\<open>nearContacts\<close> returns the
  empty sequence and the state it was given: the index is as before and no query window
  was allocated. This holds for every search function in the place of \<^verbatim>\<open>KNearest\<close>:
  the index is not asked.
\<close>

theorem nearContacts_short_circuit:
  assumes "users m i = None \<or> (\<exists>u. users m i = Some u \<and> contacts u = {})"
  shows "nearContacts m i lat lon = ([], m) \<and>
         (\<forall>search. nearContacts_on search m i lat lon = ([], m))"
  using assms by (auto simp add: nearContacts_def nearContacts_on_def)

theorem nearContacts_short_circuit_witness:
  "users newManager ''x'' = None \<and>
   nearContacts newManager ''x'' 1 1 = ([], newManager) \<and>
   users (updateLocation newManager ''x'' 1 1) ''x''
     = Some \<lparr>user_id = ''x'', contacts = {}, location = Some 2\<rparr> \<and>
   nearContacts (updateLocation newManager ''x'' 1 1) ''x'' 1 1
     = ([], updateLocation newManager ''x'' 1 1)"
proof -
  have a: "users newManager ''x'' = None"
    by (simp add: model_defs)
  have b: "users (updateLocation newManager ''x'' 1 1) ''x''
     = Some \<lparr>user_id = ''x'', contacts = {}, location = Some 2\<rparr>"
    by (simp add: model_defs)
  have "nearContacts newManager ''x'' 1 1 = ([], newManager)"
    using nearContacts_short_circuit [of newManager "''x''" 1 1] a by blast
  moreover have "nearContacts (updateLocation newManager ''x'' 1 1) ''x'' 1 1
     = ([], updateLocation newManager ''x'' 1 1)"
    using nearContacts_short_circuit [of "updateLocation newManager ''x'' 1 1" "''x''" 1 1] b
    by auto
  ultimately show ?thesis using a b by blast
qed

text \<open>
  C4. The sequence returned by \<^verbatim>\<open>nearContacts\<close> has at most \<^verbatim>\<open>nearestContacts\<close>
  elements, and \<^verbatim>\<open>nearestContacts\<close> is 5.
\<close>

theorem nearContacts_bounded:
  "int (length (fst (nearContacts m i lat lon))) \<le> nearestContacts \<and> nearestContacts = 5"
proof (cases "users m i")
  case None
  then show ?thesis
    by (simp add: nearContacts_def nearContacts_on_unknown nearestContacts_def)
next
  case (Some u)
  show ?thesis
  proof (cases "contacts u = {}")
    case True
    with Some show ?thesis
      by (simp add: nearContacts_def nearContacts_on_no_contacts nearestContacts_def)
  next
    case False
    let ?h = "heap m @ [\<lparr>pt_x = lat, pt_y = lon, pt_data = NilData\<rparr>,
                        \<lparr>pt_x = nearestDistance, pt_y = nearestDistance, pt_data = NilData\<rparr>]"
    let ?found = "KNearest ?h (world m) \<lparr>center = length (heap m), half = Suc (length (heap m))\<rparr>
                    nearestContacts (contact_filter (contacts u))"
    have "length (fst (nearContacts m i lat lon)) \<le> length (map (\<lambda>r. ?h ! r) ?found)"
      unfolding nearContacts_def nearContacts_on_result [OF Some False]
      using nearContacts_loop_length [of u "[]" "map (\<lambda>r. ?h ! r) ?found"] by simp
    also have "\<dots> = length ?found"
      by simp
    finally have "int (length (fst (nearContacts m i lat lon))) \<le> int (length ?found)"
      by simp
    also have "\<dots> \<le> max 0 nearestContacts"
      by (rule KNearest_length)
    finally show ?thesis
      by (simp add: nearestContacts_def)
  qed
qed

theorem nearContacts_bounded_witness:
  "length (points (world crowd)) = 8 \<and>
   card (contacts_of crowd ''a'') = 6 \<and>
   fst (nearContacts crowd ''a'' 1 1) = [''b'', ''c'', ''d'', ''e'', ''f''] \<and>
   int (length (fst (nearContacts crowd ''a'' 1 1))) \<le> nearestContacts"
proof -
  have "length (points (world crowd)) = 8"
    by code_simp
  moreover have "card (contacts_of crowd ''a'') = 6"
    by code_simp
  moreover have "fst (nearContacts crowd ''a'' 1 1) = [''b'', ''c'', ''d'', ''e'', ''f'']"
    by code_simp
  ultimately show ?thesis
    using nearContacts_bounded [of crowd "''a''" 1 1] by blast
qed

text \<open>
  C5. The filter accepts exactly the points whose payload is a string that belongs to
  the contacts, and every id returned by \<^verbatim>\<open>nearContacts\<close> is a contact of the user
  (none is returned for an unknown user).
\<close>

theorem nearContacts_only_contacts:
  "(contact_filter c p \<longleftrightarrow> (\<exists>s. Data p = StringData s \<and> s \<in> c)) \<and>
   set (fst (nearContacts m i lat lon)) \<subseteq> contacts_of m i"
proof (cases "users m i")
  case None
  then show ?thesis
    by (simp add: nearContacts_def nearContacts_on_unknown contact_filter_iff)
next
  case (Some u)
  show ?thesis
  proof (cases "contacts u = {}")
    case True
    with Some show ?thesis
      by (simp add: nearContacts_def nearContacts_on_no_contacts contact_filter_iff)
  next
    case False
    let ?h = "heap m @ [\<lparr>pt_x = lat, pt_y = lon, pt_data = NilData\<rparr>,
                        \<lparr>pt_x = nearestDistance, pt_y = nearestDistance, pt_data = NilData\<rparr>]"
    let ?found = "KNearest ?h (world m) \<lparr>center = length (heap m), half = Suc (length (heap m))\<rparr>
                    nearestContacts (contact_filter (contacts u))"
    have accepted: "contact_filter (contacts u) (?h ! r)" if "r \<in> set ?found" for r
      using that KNearest_set [of ?h "world m" _ nearestContacts "contact_filter (contacts u)"]
      by blast
    have "s \<in> contacts u" if "s \<in> set (fst (nearContacts m i lat lon))" for s
    proof -
      from that obtain r where "r \<in> set ?found" and "Data (?h ! r) = StringData s"
        unfolding nearContacts_def nearContacts_on_result [OF Some False]
        by (auto simp add: nearContacts_loop_set)
      with accepted [of r] show ?thesis
        by (auto simp add: contact_filter_iff)
    qed
    then show ?thesis
      using Some by (auto simp add: contacts_of_def contact_filter_iff)
  qed
qed

theorem nearContacts_only_contacts_witness:
  "contacts_of crowd ''a'' = {''b'', ''c'', ''d'', ''e'', ''f'', ''g''} \<and>
   Data (heap crowd ! 9) = StringData ''h'' \<and> 9 \<in> set (points (world crowd)) \<and>
   \<not> contact_filter (contacts_of crowd ''a'') (heap crowd ! 9) \<and>
   contact_filter (contacts_of crowd ''a'') (heap crowd ! 3) \<and>
   set (fst (nearContacts crowd ''a'' 1 1)) \<subseteq> contacts_of crowd ''a''"
proof -
  have a: "contacts_of crowd ''a'' = {''b'', ''c'', ''d'', ''e'', ''f'', ''g''}"
    by code_simp
  have b: "Data (heap crowd ! 9) = StringData ''h''" and c: "9 \<in> set (points (world crowd))"
    and d: "Data (heap crowd ! 3) = StringData ''b''"
    by code_simp+
  note T = nearContacts_only_contacts [of "contacts_of crowd ''a''" _ crowd "''a''" 1 1]
  have "\<not> contact_filter (contacts_of crowd ''a'') (heap crowd ! 9)"
    using T [of "heap crowd ! 9"] a b by simp
  moreover have "contact_filter (contacts_of crowd ''a'') (heap crowd ! 3)"
    using T [of "heap crowd ! 3"] a d by simp
  moreover have "set (fst (nearContacts crowd ''a'' 1 1)) \<subseteq> contacts_of crowd ''a''"
    using T [of "heap crowd ! 3"] by blast
  ultimately show ?thesis using a b c by blast
qed

text \<open>
  C6. The user's own id is never in the sequence returned by \<^verbatim>\<open>nearContacts\<close>,
  whatever the search returns; in a consistent state the user's id is the key it is
  filed under. In the example the user is its own contact and its point is found by the
  search.
\<close>

theorem nearContacts_excludes_self:
  "(users m i = Some u \<longrightarrow> user_id u \<notin> set (fst (nearContacts_on search m i lat lon))) \<and>
   (consistent m \<longrightarrow> i \<notin> set (fst (nearContacts m i lat lon)))"
proof -
  have own: "user_id u \<notin> set (fst (nearContacts_on srch m i lat lon))"
    if "users m i = Some u" for u srch
  proof (cases "contacts u = {}")
    case True
    with that show ?thesis by (simp add: nearContacts_on_no_contacts)
  next
    case False
    show ?thesis
      unfolding nearContacts_on_result [OF that False]
      by (simp add: nearContacts_loop_set)
  qed
  have "i \<notin> set (fst (nearContacts m i lat lon))" if c: "consistent m"
  proof (cases "users m i")
    case None
    then show ?thesis by (simp add: nearContacts_def nearContacts_on_unknown)
  next
    case (Some v)
    then have "user_id v = i"
      using c by (simp add: consistent_def)
    with own [OF Some, of KNearest] show ?thesis
      by (simp add: nearContacts_def)
  qed
  with own show ?thesis by blast
qed

theorem nearContacts_excludes_self_witness:
  "users selfish ''a'' = Some \<lparr>user_id = ''a'', contacts = {''a''}, location = Some 2\<rparr> \<and>
   consistent selfish \<and>
   KNearest (heap (snd (nearContacts selfish ''a'' 1 1))) (world selfish)
     \<lparr>center = 3, half = 4\<rparr> nearestContacts (contact_filter {''a''}) = [2] \<and>
   Data (heap selfish ! 2) = StringData ''a'' \<and>
   ''a'' \<notin> set (fst (nearContacts selfish ''a'' 1 1))"
proof -
  have u: "users selfish ''a'' = Some \<lparr>user_id = ''a'', contacts = {''a''}, location = Some 2\<rparr>"
    by (simp add: selfish_def model_defs)
  have c: "consistent selfish"
    unfolding selfish_def
    by (intro consistent_updateLocation consistent_addContacts consistent_newManager)
  have k: "KNearest (heap (snd (nearContacts selfish ''a'' 1 1))) (world selfish)
     \<lparr>center = 3, half = 4\<rparr> nearestContacts (contact_filter {''a''}) = [2]"
    by code_simp
  have d: "Data (heap selfish ! 2) = StringData ''a''"
    by code_simp
  have "''a'' \<notin> set (fst (nearContacts selfish ''a'' 1 1))"
    using nearContacts_excludes_self [of selfish "''a''" _ KNearest 1 1] c by blast
  with u c k d show ?thesis by blast
qed

subsection \<open>Contacts accumulate\<close>

lemma contacts_of_addContacts:
  "contacts_of (addContacts m i cs) j =
     (if j = i then contacts_of m i \<union> set cs else contacts_of m j)"
  by (simp add: contacts_of_def addContacts_def newUser_def addContacts_loop_eq
      split: option.splits)

lemma contacts_of_updateLocation:
  "contacts_of (updateLocation m i lat lon) j = contacts_of m j"
  by (auto simp add: contacts_of_def updateLocation_def newUser_def NewPoint_def
      split: option.splits prod.splits)

lemma contacts_of_nearContacts_on:
  "contacts_of (snd (nearContacts_on search m i lat lon)) j = contacts_of m j"
  by (auto simp add: contacts_of_def nearContacts_on_def NewPoint_def HalfPoint_def
      split: option.splits prod.splits)

lemma contacts_of_foldl_addContacts:
  "contacts_of (foldl (\<lambda>s cs. addContacts s i cs) m calls) i =
     contacts_of m i \<union> \<Union> (set ` set calls)"
  by (induction calls arbitrary: m) (auto simp add: contacts_of_addContacts)

text \<open>
  C7. \<^verbatim>\<open>addContacts\<close> unites the ids given with the user's contacts. Starting from a
  user without contacts, any sequence of calls that consists of \<open>[a, b]\<close> and
  \<open>[b, c]\<close>, each at least once, in any order and with any repetition, leaves the
  contacts \<open>{a, b, c}\<close>. No operation of the manager removes a contact of any user.
\<close>

theorem addContacts_union:
  "contacts_of (addContacts m u cs) u = contacts_of m u \<union> set cs \<and>
   (contacts_of m u = {} \<and> set calls = {[a, b], [b, c]} \<longrightarrow>
      contacts_of (foldl (\<lambda>s cs. addContacts s u cs) m calls) u = {a, b, c}) \<and>
   contacts_of m j \<subseteq> contacts_of (addContacts m u cs) j \<and>
   contacts_of (updateLocation m u lat lon) j = contacts_of m j \<and>
   contacts_of (snd (nearContacts m u lat lon)) j = contacts_of m j"
proof -
  have "contacts_of (foldl (\<lambda>s cs. addContacts s u cs) m calls) u = {a, b, c}"
    if "contacts_of m u = {}" and "set calls = {[a, b], [b, c]}"
    using that by (auto simp add: contacts_of_foldl_addContacts)
  then show ?thesis
    by (simp add: contacts_of_addContacts contacts_of_updateLocation nearContacts_def
        contacts_of_nearContacts_on)
qed

theorem addContacts_union_witness:
  "contacts_of newManager ''u'' = {} \<and>
   contacts_of (addContacts (addContacts newManager ''u'' [''a'', ''b'']) ''u'' [''b'', ''c'']) ''u''
     = {''a'', ''b'', ''c''} \<and>
   contacts_of (addContacts (addContacts newManager ''u'' [''b'', ''c'']) ''u'' [''a'', ''b'']) ''u''
     = {''a'', ''b'', ''c''} \<and>
   contacts_of (foldl (\<lambda>s cs. addContacts s ''u'' cs) newManager
       [[''b'', ''c''], [''a'', ''b''], [''a'', ''b''], [''b'', ''c'']]) ''u''
     = {''a'', ''b'', ''c''} \<and>
   card (contacts_of (addContacts (addContacts newManager ''u'' [''a'', ''b'']) ''u'' [''b'', ''c''])
           ''u'') = 3"
proof -
  have e: "contacts_of newManager ''u'' = {}"
    by (simp add: model_defs)
  have s1: "set [[''a'', ''b''], [''b'', ''c'']] = {[''a'', ''b''], [''b'', ''c'']}"
    and s2: "set [[''b'', ''c''], [''a'', ''b'']] = {[''a'', ''b''], [''b'', ''c'']}"
    and s3: "set [[''b'', ''c''], [''a'', ''b''], [''a'', ''b''], [''b'', ''c'']]
               = {[''a'', ''b''], [''b'', ''c'']}"
    by auto
  note T = addContacts_union [of newManager "''u''" "[]" _ "''a''" "''b''" "''c''" "''u''" 0 0]
  have a: "contacts_of (foldl (\<lambda>s cs. addContacts s ''u'' cs) newManager
             [[''a'', ''b''], [''b'', ''c'']]) ''u'' = {''a'', ''b'', ''c''}"
    using T [of "[[''a'', ''b''], [''b'', ''c'']]"] e s1 by blast
  have b: "contacts_of (foldl (\<lambda>s cs. addContacts s ''u'' cs) newManager
             [[''b'', ''c''], [''a'', ''b'']]) ''u'' = {''a'', ''b'', ''c''}"
    using T [of "[[''b'', ''c''], [''a'', ''b'']]"] e s2 by blast
  have c: "contacts_of (foldl (\<lambda>s cs. addContacts s ''u'' cs) newManager
             [[''b'', ''c''], [''a'', ''b''], [''a'', ''b''], [''b'', ''c'']]) ''u''
             = {''a'', ''b'', ''c''}"
    using T [of "[[''b'', ''c''], [''a'', ''b''], [''a'', ''b''], [''b'', ''c'']]"] e s3 by blast
  have d: "card {''a'', ''b'', ''c''} = 3"
    by simp
  show ?thesis
    using e a b c d by simp
qed

subsection \<open>The first report of a location\<close>

lemma in_world_data:
  "ContainsPoint h a \<lparr>pt_x = lat, pt_y = lon, pt_data = d\<rparr> =
   ContainsPoint h a \<lparr>pt_x = lat, pt_y = lon, pt_data = NilData\<rparr>"
  by (simp add: ContainsPoint_def)

lemma no_location_cases:
  assumes "users m i = None \<or> (\<exists>v. users m i = Some v \<and> location v = None)"
  obtains v where
    "updateLocation m i lat lon =
       m\<lparr>world := snd (Insert (heap m @ [\<lparr>pt_x = lat, pt_y = lon, pt_data = StringData i\<rparr>])
                         (world m) (length (heap m))),
         users := (users m)(i \<mapsto> v\<lparr>location := Some (length (heap m))\<rparr>),
         heap := heap m @ [\<lparr>pt_x = lat, pt_y = lon, pt_data = StringData i\<rparr>]\<rparr>"
  using assms updateLocation_unknown [of m i lat lon] updateLocation_first [of m i _ lat lon]
  by blast

lemma first_report_Insert:
  assumes c: "consistent m"
  shows "Insert (heap m @ [\<lparr>pt_x = lat, pt_y = lon, pt_data = d\<rparr>]) (world m) (length (heap m)) =
           (if in_world m lat lon
            then (None, (world m)\<lparr>points := points (world m) @ [length (heap m)]\<rparr>)
            else (Some OutOfBoundsError, world m))"
proof -
  have "center (boundary (world m)) < length (heap m)"
    and "half (boundary (world m)) < length (heap m)"
    using c by (simp_all add: consistent_def)
  then have "ContainsPoint (heap m @ [\<lparr>pt_x = lat, pt_y = lon, pt_data = d\<rparr>])
               (boundary (world m)) \<lparr>pt_x = lat, pt_y = lon, pt_data = d\<rparr> = in_world m lat lon"
    unfolding in_world_def by (simp add: ContainsPoint_append in_world_data [of _ _ _ _ d])
  then show ?thesis
    by (simp add: Insert_def)
qed








text \<open>
  C10. The state after \<^verbatim>\<open>updateLocation\<close> takes the index from \<^verbatim>\<open>Insert\<close> or
  \<^verbatim>\<open>Update\<close> and nothing else of their results, and the handler answers as for any
  ping. On a first report outside the world, in a consistent state, \<^verbatim>\<open>Insert\<close>
  reports \<^verbatim>\<open>OutOfBoundsError\<close> and leaves the index as it was, while the user's
  location refers to the new point, which the index does not hold.
\<close>

theorem updateLocation_first_report_unchecked:
  "(consistent m \<and> \<not> in_world m lat lon \<and>
    (users m i = None \<or> (\<exists>v. users m i = Some v \<and> location v = None)) \<longrightarrow>
      fst (Insert (heap (updateLocation m i lat lon)) (world m) (length (heap m)))
        = Some OutOfBoundsError \<and>
      world (updateLocation m i lat lon) = world m \<and>
      (\<exists>v. users (updateLocation m i lat lon) i = Some v \<and>
            location v = Some (length (heap m))) \<and>
      heap (updateLocation m i lat lon) ! length (heap m)
        = \<lparr>pt_x = lat, pt_y = lon, pt_data = StringData i\<rparr> \<and>
      length (heap m) \<notin> set (points (world (updateLocation m i lat lon)))) \<and>
   (users m i = None \<or> (\<exists>v. users m i = Some v \<and> location v = None) \<longrightarrow>
      world (updateLocation m i lat lon) =
        snd (Insert (heap (updateLocation m i lat lon)) (world m) (length (heap m)))) \<and>
   (\<forall>u old. users m i = Some u \<and> location u = Some old \<and>
             Coordinates (heap m ! old) \<noteq> (lat, lon) \<longrightarrow>
      world (updateLocation m i lat lon) =
        snd (Update (heap (updateLocation m i lat lon)) (world m) old (length (heap m)))) \<and>
   pingHandler m (ping_request i lat lon) = (no_write, updateLocation m i lat lon)"
proof -
  let ?h = "heap m @ [\<lparr>pt_x = lat, pt_y = lon, pt_data = StringData i\<rparr>]"
  have first: "world (updateLocation m i lat lon) =
        snd (Insert (heap (updateLocation m i lat lon)) (world m) (length (heap m)))"
    if n: "users m i = None \<or> (\<exists>v. users m i = Some v \<and> location v = None)"
  proof -
    from n obtain v where
      up: "updateLocation m i lat lon =
         m\<lparr>world := snd (Insert ?h (world m) (length (heap m))),
           users := (users m)(i \<mapsto> v\<lparr>location := Some (length (heap m))\<rparr>),
           heap := ?h\<rparr>"
      by (rule no_location_cases)
    show ?thesis by (simp add: up)
  qed
  have oob: "fst (Insert (heap (updateLocation m i lat lon)) (world m) (length (heap m)))
        = Some OutOfBoundsError \<and>
      world (updateLocation m i lat lon) = world m \<and>
      (\<exists>v. users (updateLocation m i lat lon) i = Some v \<and>
            location v = Some (length (heap m))) \<and>
      heap (updateLocation m i lat lon) ! length (heap m)
        = \<lparr>pt_x = lat, pt_y = lon, pt_data = StringData i\<rparr> \<and>
      length (heap m) \<notin> set (points (world (updateLocation m i lat lon)))"
    if c: "consistent m" and o: "\<not> in_world m lat lon"
      and n: "users m i = None \<or> (\<exists>v. users m i = Some v \<and> location v = None)"
  proof -
    from n obtain v where
      up: "updateLocation m i lat lon =
         m\<lparr>world := snd (Insert ?h (world m) (length (heap m))),
           users := (users m)(i \<mapsto> v\<lparr>location := Some (length (heap m))\<rparr>),
           heap := ?h\<rparr>"
      by (rule no_location_cases)
    have fresh: "length (heap m) \<notin> set (points (world m))"
      using c by (auto simp add: consistent_def)
    show ?thesis
      using o fresh by (simp add: up first_report_Insert [OF c])
  qed
  have move: "world (updateLocation m i lat lon) =
        snd (Update (heap (updateLocation m i lat lon)) (world m) old (length (heap m)))"
    if "users m i = Some u" and "location u = Some old"
      and "Coordinates (heap m ! old) \<noteq> (lat, lon)" for u old
    using that by (simp add: updateLocation_move)
  show ?thesis
    using first oob move pingHandler_ping_request [of m i lat lon] by blast
qed

theorem updateLocation_first_report_unchecked_witness:
  "consistent newManager \<and> \<not> in_world newManager 100 200 \<and> users newManager ''u'' = None \<and>
   fst (Insert (heap (updateLocation newManager ''u'' 100 200)) (world newManager) 2)
     = Some OutOfBoundsError \<and>
   users (updateLocation newManager ''u'' 100 200) ''u''
     = Some \<lparr>user_id = ''u'', contacts = {}, location = Some 2\<rparr> \<and>
   heap (updateLocation newManager ''u'' 100 200) ! 2
     = \<lparr>pt_x = 100, pt_y = 200, pt_data = StringData ''u''\<rparr> \<and>
   points (world (updateLocation newManager ''u'' 100 200)) = [] \<and>
   2 \<notin> set (points (world (updateLocation newManager ''u'' 100 200))) \<and>
   pingHandler newManager (ping_request ''u'' 100 200)
     = (no_write, updateLocation newManager ''u'' 100 200)"
proof -
  have n: "users newManager ''u'' = None" and len: "length (heap newManager) = 2"
    and o: "\<not> in_world newManager 100 200"
    and us: "users (updateLocation newManager ''u'' 100 200) ''u''
               = Some \<lparr>user_id = ''u'', contacts = {}, location = Some 2\<rparr>"
    and p: "points (world (updateLocation newManager ''u'' 100 200)) = []"
    by (simp_all add: model_defs)
  note c = consistent_newManager
  note T = updateLocation_first_report_unchecked [of newManager 100 200 "''u''"]
  have a: "fst (Insert (heap (updateLocation newManager ''u'' 100 200)) (world newManager)
                  (length (heap newManager))) = Some OutOfBoundsError"
    and b: "heap (updateLocation newManager ''u'' 100 200) ! length (heap newManager)
              = \<lparr>pt_x = 100, pt_y = 200, pt_data = StringData ''u''\<rparr>"
    and d: "length (heap newManager)
              \<notin> set (points (world (updateLocation newManager ''u'' 100 200)))"
    and e: "pingHandler newManager (ping_request ''u'' 100 200)
              = (no_write, updateLocation newManager ''u'' 100 200)"
    using T n c o by blast+
  show ?thesis
    using n c o us p a b d e unfolding len by simp
qed

end
